theory Spec2Isabelle
  imports Main
begin

section \<open>Response-status capture (utils/path.go)\<close>

text \<open>
  The status codes of \<^verbatim>\<open>go.opentelemetry.io/otel/codes\<close> that the package uses.
\<close>

datatype Code = Unset | Error | Ok

text \<open>The four message constants, character for character as path.go declares them.\<close>

definition OKStatusMsg :: string where
  "OKStatusMsg = ''0K''"

definition ClientStatusMsg :: string where
  "ClientStatusMsg = ''Client Error''"

definition ServerStatusMsg :: string where
  "ServerStatusMsg = ''Server Error''"

definition DefaultrStatusMsg :: string where
  "DefaultrStatusMsg = ''Unhandled Status''"

text \<open>
  A call made on an \<^verbatim>\<open>http.ResponseWriter\<close>: \<^verbatim>\<open>w.Header().Set(k, v)\<close>,
  \<^verbatim>\<open>w.WriteHeader(code)\<close>, \<^verbatim>\<open>w.Write(body)\<close>. Go's \<^verbatim>\<open>int\<close> is
  modelled by \<open>int\<close>: the code is stored, compared and printed, never computed with.
\<close>

datatype wcall = HeaderSet string string | WriteHeader int | Write string

text \<open>
  \<^verbatim>\<open>StatusWriter\<close> embeds the writer it wraps and owns one field. The wrapped writer
  is not a field of the record: it is the receiver of the calls that the wrapper forwards.
\<close>

record StatusWriter =
  StatusCode :: int

text \<open>
  One call on a \<^verbatim>\<open>StatusWriter\<close>: the new state of the wrapper and the call that
  reaches the embedded writer. \<^verbatim>\<open>WriteHeader\<close> is the only method the type
  overrides; \<^verbatim>\<open>Header\<close> and \<^verbatim>\<open>Write\<close> are promoted from the embedded writer.
\<close>

fun StatusWriter_call :: "StatusWriter \<Rightarrow> wcall \<Rightarrow> StatusWriter \<times> wcall" where
  "StatusWriter_call sw (WriteHeader code) = (sw\<lparr>StatusCode := code\<rparr>, WriteHeader code)"
| "StatusWriter_call sw c = (sw, c)"

text \<open>The calls a handler makes on the wrapper, in order.\<close>

fun StatusWriter_calls :: "StatusWriter \<Rightarrow> wcall list \<Rightarrow> StatusWriter \<times> wcall list" where
  "StatusWriter_calls sw [] = (sw, [])"
| "StatusWriter_calls sw (c # cs) =
     (let (sw1, f) = StatusWriter_call sw c;
          (sw2, fs) = StatusWriter_calls sw1 cs
      in (sw2, f # fs))"

definition GetStatus :: "StatusWriter \<Rightarrow> Code \<times> string" where
  "GetStatus sw =
     (if StatusCode sw \<ge> 200 \<and> StatusCode sw < 300 then (Ok, OKStatusMsg)
      else if StatusCode sw \<ge> 400 \<and> StatusCode sw < 500 then (Error, ClientStatusMsg)
      else if StatusCode sw \<ge> 500 then (Error, ServerStatusMsg)
      else (Unset, DefaultrStatusMsg))"

text \<open>\<^verbatim>\<open>http.StatusOK\<close>, \<^verbatim>\<open>http.StatusNoContent\<close> and \<^verbatim>\<open>http.MethodOptions\<close>.\<close>

definition StatusOK :: int where
  "StatusOK = 200"

definition StatusNoContent :: int where
  "StatusNoContent = 204"

definition MethodOptions :: string where
  "MethodOptions = ''OPTIONS''"

text \<open>
  Both middlewares build the wrapper as
  \<^verbatim>\<open>&utils.StatusWriter{ResponseWriter: w, StatusCode: http.StatusOK}\<close>.
\<close>

definition new_StatusWriter :: StatusWriter where
  "new_StatusWriter = \<lparr>StatusCode = StatusOK\<rparr>"

section \<open>Path classifier (utils/path.go)\<close>

text \<open>
  The part of \<^verbatim>\<open>context.Context\<close> that the middlewares touch: the baggage, and the
  span that \<^verbatim>\<open>tracer.Start\<close> stores, identified by the name it was started with.
\<close>

record ctx =
  Baggage :: "(string \<times> string) list"
  Span :: "string option"

text \<open>
  The fields of \<^verbatim>\<open>http.Request\<close> that the package reads. \<open>URL_Path\<close> is
  \<^verbatim>\<open>r.URL.Path\<close>, the path of the request itself.
\<close>

record request =
  Method :: string
  URL_Path :: string
  Host :: string
  RequestURI :: string
  Header :: "(string \<times> string) list"
  Context :: ctx

definition invalidPaths :: "string list" where
  "invalidPaths = [''/metrics'', ''/status'', ''/ready'', ''/'', ''/*'']"

text \<open>\<^verbatim>\<open>slices.Contains\<close>: a linear scan with \<^verbatim>\<open>==\<close>.\<close>

fun Contains :: "'a list \<Rightarrow> 'a \<Rightarrow> bool" where
  "Contains [] v = False"
| "Contains (x # xs) v = (if x = v then True else Contains xs v)"

definition CheckInValidPath :: "request \<Rightarrow> bool" where
  "CheckInValidPath r = Contains invalidPaths (URL_Path r)"

section \<open>Formatting (the \<^verbatim>\<open>%d\<close> verb of fmt.Sprintf)\<close>

fun dec_nat :: "nat \<Rightarrow> string" where
  "dec_nat n =
     (if n < 10 then [''0123456789'' ! n]
      else dec_nat (n div 10) @ [''0123456789'' ! (n mod 10)])"

declare dec_nat.simps [simp del]

definition dec_int :: "int \<Rightarrow> string" where
  "dec_int i = (if i < 0 then CHR ''-'' # dec_nat (nat (- i)) else dec_nat (nat i))"

text \<open>
  The operands the package hands to \<^verbatim>\<open>%d\<close>: an \<^verbatim>\<open>int\<close> in \<^verbatim>\<open>New\<close> and in
  the metrics middleware, a \<^verbatim>\<open>bool\<close> in \<^verbatim>\<open>NewEmpty\<close>. For an operand whose type
  the verb does not accept, fmt prints \<^verbatim>\<open>%!verb(type=value)\<close>.
\<close>

datatype fmt_arg = IntArg int | BoolArg bool

fun verb_d :: "fmt_arg \<Rightarrow> string" where
  "verb_d (IntArg i) = dec_int i"
| "verb_d (BoolArg b) = ''%!d(bool='' @ (if b then ''true'' else ''false'') @ '')''"

text \<open>\<^verbatim>\<open>fmt.Sprintf("%d", a)\<close> and \<^verbatim>\<open>fmt.Sprintf(":%d", a)\<close>.\<close>

definition Sprintf_d :: "fmt_arg \<Rightarrow> string" where
  "Sprintf_d a = verb_d a"

definition Sprintf_colon_d :: "fmt_arg \<Rightarrow> string" where
  "Sprintf_colon_d a = '':'' @ verb_d a"

section \<open>Handlers and what they are observed to do\<close>

text \<open>
  What the sinks receive. \<open>CounterInc p m s\<close> is
  \<^verbatim>\<open>requestsTotalByEndpointAndStatus.WithLabelValues(p, m, s).Inc()\<close>;
  \<open>HistObserve p m s d\<close> is the \<^verbatim>\<open>Observe\<close> call on
  \<^verbatim>\<open>requestDurationByEndpointAndStatus\<close> with the same labels, \<open>d\<close> being the
  elapsed \<^verbatim>\<open>time.Duration\<close> in nanoseconds (its conversion to floating-point seconds
  is left out). The span events are the calls on the span that \<^verbatim>\<open>tracer.Start\<close>
  returned. Both sinks are logs: they accept every call.
\<close>

datatype attribute =
    KeyString string string
  | HTTPStatusCode int
  | HTTPMethod string
  | HTTPURL string

datatype tevent =
    CounterInc string string string
  | HistObserve string string string int
  | SpanStart string
  | SpanSetStatus Code string
  | SpanSetName string
  | SpanSetAttributes "attribute list"
  | SpanEnd

text \<open>
  The mutable things a request's handlers share: the route pattern that
  \<^verbatim>\<open>chi.RouteContext(ctx).RoutePattern()\<close> returns at this moment (chi fills it in
  while it dispatches, and returns the empty string while nothing is resolved), and the
  reading of \<^verbatim>\<open>time.Now()\<close> in nanoseconds.
\<close>

record shared =
  RoutePattern :: string
  clock :: int

datatype exit = Returned | Panicked

text \<open>
  A handler is known by what \<^verbatim>\<open>ServeHTTP(w, r)\<close> does: the calls it makes on the
  writer it is handed, in order; what it emits to the sinks; the shared state it leaves;
  and whether it returns or panics. A call that panics inside the writer is the last
  call of a handler that panicked.
\<close>

record outcome =
  calls :: "wcall list"
  emitted :: "tevent list"
  after :: shared
  exit :: exit

type_synonym handler = "request \<Rightarrow> shared \<Rightarrow> outcome"

section \<open>Metrics middleware (metrics/metrics.go)\<close>

definition MetricsMiddleware :: "handler \<Rightarrow> handler" where
  "MetricsMiddleware next r s =
     (if CheckInValidPath r then next r s
      else
        let start = clock s;
            ww = new_StatusWriter;
            served = next r s;
            (ww, forwarded) = StatusWriter_calls ww (calls served)
        in if exit served = Panicked then served\<lparr>calls := forwarded\<rparr>
           else
             let statusCode = Sprintf_d (IntArg (StatusCode ww));
                 path = RoutePattern (after served);
                 method = Method r;
                 duration = clock (after served) - start
             in served\<lparr>calls := forwarded,
                        emitted := emitted served @
                          [CounterInc path method statusCode,
                           HistObserve path method statusCode duration]\<rparr>)"

section \<open>Tracing middleware (tracing/tracing\_middleware.go)\<close>

definition ContextWithoutBaggage :: "ctx \<Rightarrow> ctx" where
  "ContextWithoutBaggage c = c\<lparr>Baggage := []\<rparr>"

text \<open>The context that \<^verbatim>\<open>tracer.Start(ctx, name)\<close> returns.\<close>

definition tracer_Start :: "ctx \<Rightarrow> string \<Rightarrow> ctx" where
  "tracer_Start c name = c\<lparr>Span := Some name\<rparr>"

text \<open>
  \<^verbatim>\<open>r.Header.Get(k)\<close>, for a key in canonical form as the server stores it: the
  empty string when the header is absent.
\<close>

definition Header_Get :: "request \<Rightarrow> string \<Rightarrow> string" where
  "Header_Get r k = (case map_of (Header r) k of None \<Rightarrow> '''' | Some v \<Rightarrow> v)"

definition getFullURL :: "request \<Rightarrow> string" where
  "getFullURL r =
     (let scheme = (if Header_Get r ''X-Forwarded-Proto'' = ''https'' then ''https'' else ''http'')
      in scheme @ ''://'' @ Host r @ RequestURI r)"

text \<open>
  \<^verbatim>\<open>defer span.End()\<close> is the list \<open>deferred\<close>: it runs when the function exits,
  by return or by a panic passing through, and the exit of the wrapped handler is kept.
  The statements after \<^verbatim>\<open>next.ServeHTTP\<close> run only when it returned.
\<close>

definition TracingMiddleware :: "handler \<Rightarrow> handler" where
  "TracingMiddleware next r s =
     (if CheckInValidPath r then next r s
      else
        let defaultCtx = ContextWithoutBaggage (Context r);
            ww = new_StatusWriter;
            ctx = tracer_Start defaultCtx (URL_Path r);
            started = [SpanStart (URL_Path r)];
            deferred = [SpanEnd];
            served = next (r\<lparr>Context := ctx\<rparr>) s;
            (ww, forwarded) = StatusWriter_calls ww (calls served);
            annotated =
              (if exit served = Panicked then []
               else
                 let routePattern = RoutePattern (after served);
                     (code, msg) = GetStatus ww
                 in [SpanSetStatus code msg,
                     SpanSetName routePattern,
                     SpanSetAttributes
                       [KeyString ''extra_path'' (URL_Path r),
                        HTTPStatusCode (StatusCode ww),
                        HTTPMethod (Method r),
                        HTTPURL (getFullURL r)]])
        in served\<lparr>calls := forwarded,
                   emitted := started @ emitted served @ annotated @ deferred\<rparr>)"

section \<open>Router construction and CORS (httpkit.go)\<close>

text \<open>The package-level variable \<^verbatim>\<open>CorsAllowOrigins\<close>.\<close>

record globals =
  CorsAllowOrigins :: string

definition cors :: "globals \<Rightarrow> handler \<Rightarrow> handler" where
  "cors g next r s =
     (let headers =
            [HeaderSet ''Access-Control-Allow-Origin'' (CorsAllowOrigins g),
             HeaderSet ''Access-Control-Allow-Methods'' ''GET, POST, PUT, DELETE, OPTIONS'',
             HeaderSet ''Access-Control-Allow-Headers''
               ''Content-Type, Authorization, User-Address, Token'',
             HeaderSet ''Access-Control-Max-Age'' ''3600'']
      in if Method r = MethodOptions
         then \<lparr>calls = headers @ [WriteHeader StatusNoContent], emitted = [],
               after = s, exit = Returned\<rparr>
         else
           let served = next r s
           in served\<lparr>calls := headers @ calls served\<rparr>)"

text \<open>
  What \<^verbatim>\<open>router.Use\<close> is given. \<^verbatim>\<open>StripSlashes\<close> and \<^verbatim>\<open>RealIP\<close> are chi's;
  the other three are the functions above. chi appends each to the router's middleware
  stack, and the stack runs in that order, the first one outermost.
\<close>

datatype middleware = StripSlashes | UseMetrics | UseTracing | UseCors | RealIP

text \<open>
  A router: the middleware stack and the routes, each a method, a pattern and what serves
  it. A mounted sub-router is known by a number only. \<^verbatim>\<open>router.NotFoundHandler()\<close> and
  \<^verbatim>\<open>router.MethodNotAllowedHandler()\<close> read the router and the constructors drop what
  they return, so they have no counterpart here.
\<close>

datatype target = GetStatusHandler | Mounted nat

record Mux =
  middlewares :: "middleware list"
  routes :: "(string \<times> string \<times> target) list"

record SubDomain =
  Domain :: string
  SubRouter :: nat

record Server =
  Addr :: string

record Handler =
  server :: Server
  Router :: Mux

definition NewRouter :: Mux where
  "NewRouter = \<lparr>middlewares = [], routes = []\<rparr>"

definition Use :: "Mux \<Rightarrow> middleware \<Rightarrow> Mux" where
  "Use router m = router\<lparr>middlewares := middlewares router @ [m]\<rparr>"

definition Get :: "Mux \<Rightarrow> string \<Rightarrow> target \<Rightarrow> Mux" where
  "Get router pattern h = router\<lparr>routes := routes router @ [(''GET'', pattern, h)]\<rparr>"

definition Mount :: "Mux \<Rightarrow> string \<Rightarrow> nat \<Rightarrow> Mux" where
  "Mount router pattern sub = router\<lparr>routes := routes router @ [(''*'', pattern, Mounted sub)]\<rparr>"

definition New ::
  "int \<Rightarrow> bool \<Rightarrow> bool \<Rightarrow> bool \<Rightarrow> string \<Rightarrow> SubDomain list \<Rightarrow> globals \<Rightarrow> Handler \<times> globals" where
  "New port tracerEnable metricsEnable setCors corsAllowOrigins subdomains g =
     (let router = NewRouter;
          router = Use router StripSlashes;
          router = (if metricsEnable then Use router UseMetrics else router);
          router = (if tracerEnable then Use router UseTracing else router);
          (router, g) =
            (if setCors
             then (Use router UseCors, g\<lparr>CorsAllowOrigins := corsAllowOrigins\<rparr>)
             else (router, g));
          router = Use router RealIP;
          router = Get router ''/'' GetStatusHandler;
          router = Get router ''/ready'' GetStatusHandler;
          router = Get router ''/status'' GetStatusHandler;
          router = foldl (\<lambda>rt subdomain. Mount rt (Domain subdomain) (SubRouter subdomain))
                     router subdomains
      in (\<lparr>server = \<lparr>Addr = Sprintf_colon_d (IntArg port)\<rparr>, Router = router\<rparr>, g))"

definition NewEmpty :: "bool \<Rightarrow> bool \<Rightarrow> bool \<Rightarrow> globals \<Rightarrow> Handler \<times> globals" where
  "NewEmpty port tracerEnable metricsEnable g =
     (let router = NewRouter;
          router = Use router StripSlashes;
          router = (if tracerEnable then Use router UseTracing else router);
          router = (if metricsEnable then Use router UseMetrics else router);
          router = Use router RealIP;
          router = Get router ''/'' GetStatusHandler;
          router = Get router ''/ready'' GetStatusHandler;
          router = Get router ''/status'' GetStatusHandler
      in (\<lparr>server = \<lparr>Addr = Sprintf_colon_d (BoolArg port)\<rparr>, Router = router\<rparr>, g))"

text \<open>
  \<^verbatim>\<open>Handler.Start\<close>, as a function of what \<^verbatim>\<open>h.server.ListenAndServe()\<close>
  returned (\<open>None\<close> is Go's nil error). Go compares the two error values by identity.
\<close>

datatype error = ErrServerClosed | OtherError string

definition Start :: "error option \<Rightarrow> error option" where
  "Start err = (if err \<noteq> None \<and> err \<noteq> Some ErrServerClosed then err else None)"

section \<open>JSON responses (utils/utils.go) and the status handler (httpkit.go)\<close>

text \<open>
  \<^verbatim>\<open>utils.WriteJSON\<close>: the three calls it makes on the writer.
\<close>

definition ContentType :: string where
  "ContentType = ''Content-Type''"

definition ApplicationJSON :: string where
  "ApplicationJSON = ''application/json; charset=utf-8''"

definition WriteJSON :: "int \<Rightarrow> string \<Rightarrow> wcall list" where
  "WriteJSON statusCode body =
     [HeaderSet ContentType ApplicationJSON, WriteHeader statusCode, Write body]"

text \<open>
  The handler \<^verbatim>\<open>GetStatus\<close> of httpkit.go, registered for the three fixed routes:
  \<^verbatim>\<open>utils.WriteBody\<close> marshals the map, which cannot fail, and hands the bytes to
  \<^verbatim>\<open>WriteJSON\<close>.
\<close>

definition httpkit_GetStatus :: handler where
  \<open>httpkit_GetStatus r s =
     \<lparr>calls = WriteJSON StatusOK ''{"message":"OK"}'', emitted = [], after = s, exit = Returned\<rparr>\<close>

section \<open>Concrete requests and handlers\<close>

text \<open>
  The inputs at which the properties below are evaluated: a request context without
  baggage or span, the shared state at the start of a request, some requests, and some
  handlers together with the routes chi resolves for them.
\<close>

definition no_context :: ctx where
  "no_context = \<lparr>Baggage = [], Span = None\<rparr>"

definition fresh :: shared where
  "fresh = \<lparr>RoutePattern = '''', clock = 0\<rparr>"

definition get_user_42 :: request where
  "get_user_42 =
     \<lparr>Method = ''GET'', URL_Path = ''/users/42'', Host = ''localhost:8080'',
      RequestURI = ''/users/42'', Header = [], Context = no_context\<rparr>"

definition post_order :: request where
  "post_order =
     \<lparr>Method = ''POST'', URL_Path = ''/orders'', Host = ''localhost:8080'',
      RequestURI = ''/orders'', Header = [], Context = no_context\<rparr>"

definition get_item_7 :: request where
  "get_item_7 =
     \<lparr>Method = ''GET'', URL_Path = ''/items/7'', Host = ''localhost:8080'',
      RequestURI = ''/items/7'', Header = [], Context = no_context\<rparr>"

definition get_status :: request where
  "get_status =
     \<lparr>Method = ''GET'', URL_Path = ''/status'', Host = ''localhost:8080'',
      RequestURI = ''/status'', Header = [], Context = no_context\<rparr>"

definition get_status_slash :: request where
  "get_status_slash =
     \<lparr>Method = ''GET'', URL_Path = ''/status/'', Host = ''localhost:8080'',
      RequestURI = ''/status/'', Header = [], Context = no_context\<rparr>"

definition options_users :: request where
  "options_users =
     \<lparr>Method = ''OPTIONS'', URL_Path = ''/users'', Host = ''localhost:8080'',
      RequestURI = ''/users'', Header = [], Context = no_context\<rparr>"

text \<open>
  A route \<^verbatim>\<open>/users/{id}\<close> whose handler answers 404 through \<^verbatim>\<open>WriteJSON\<close>
  after a millisecond and a half.
\<close>

definition user_not_found :: handler where
  "user_not_found r s =
     \<lparr>calls = WriteJSON 404 ''{}'', emitted = [],
      after = s\<lparr>RoutePattern := ''/users/{id}'', clock := clock s + 1500000\<rparr>,
      exit = Returned\<rparr>"

text \<open>A route \<^verbatim>\<open>/items/{id}\<close> whose handler answers 200.\<close>

definition item_found :: handler where
  "item_found r s =
     \<lparr>calls = WriteJSON 200 ''{}'', emitted = [],
      after = s\<lparr>RoutePattern := ''/items/{id}'', clock := clock s + 900000\<rparr>,
      exit = Returned\<rparr>"

definition get_ping :: request where
  "get_ping =
     \<lparr>Method = ''GET'', URL_Path = ''/ping'', Host = ''localhost:8080'',
      RequestURI = ''/ping'', Header = [], Context = no_context\<rparr>"

text \<open>A route \<^verbatim>\<open>/ping\<close> whose handler writes a body and never calls \<^verbatim>\<open>WriteHeader\<close>.\<close>

definition pong :: handler where
  "pong r s =
     \<lparr>calls = [Write ''pong''], emitted = [],
      after = s\<lparr>RoutePattern := ''/ping'', clock := clock s + 40000\<rparr>,
      exit = Returned\<rparr>"

text \<open>
  A request that matches no route: the handler answers 404 and chi has resolved no pattern.
\<close>

definition route_not_matched :: handler where
  "route_not_matched r s =
     \<lparr>calls = [HeaderSet ContentType ''text/plain; charset=utf-8'', WriteHeader 404,
               Write ''404 page not found''],
      emitted = [], after = s\<lparr>clock := clock s + 30000\<rparr>, exit = Returned\<rparr>"

text \<open>
  The status handler reached through a route that resolves to the pattern
  \<^verbatim>\<open>/status\<close>.
\<close>

definition status_route :: handler where
  "status_route r s =
     (httpkit_GetStatus r s)\<lparr>after := s\<lparr>RoutePattern := ''/status'', clock := clock s + 10000\<rparr>\<rparr>"

text \<open>A handler that panics before it writes anything.\<close>

definition panics_at_once :: handler where
  "panics_at_once r s = \<lparr>calls = [], emitted = [], after = s, exit = Panicked\<rparr>"

text \<open>A route \<^verbatim>\<open>/orders\<close> whose handler panics after chi has resolved the route.\<close>

definition order_panics :: handler where
  "order_panics r s =
     \<lparr>calls = [], emitted = [],
      after = s\<lparr>RoutePattern := ''/orders'', clock := clock s + 20000\<rparr>,
      exit = Panicked\<rparr>"

definition no_origin :: globals where
  "no_origin = \<lparr>CorsAllowOrigins = ''''\<rparr>"

section \<open>Counting what a middleware emits\<close>

fun is_counter_inc :: "tevent \<Rightarrow> bool" where
  "is_counter_inc (CounterInc p m c) = True"
| "is_counter_inc e = False"

fun is_hist_observe :: "tevent \<Rightarrow> bool" where
  "is_hist_observe (HistObserve p m c d) = True"
| "is_hist_observe e = False"

fun is_span_start :: "tevent \<Rightarrow> bool" where
  "is_span_start (SpanStart n) = True"
| "is_span_start e = False"

definition count_of :: "(tevent \<Rightarrow> bool) \<Rightarrow> outcome \<Rightarrow> nat" where
  "count_of P out = length (filter P (emitted out))"

section \<open>Constructions in one process\<close>

text \<open>
  A call of one of the two constructors, and the package state it leaves.
\<close>

datatype construction =
    CallNew int bool bool bool string "SubDomain list"
  | CallNewEmpty bool bool bool

fun construct :: "globals \<Rightarrow> construction \<Rightarrow> globals" where
  "construct g (CallNew port tracerEnable metricsEnable setCors corsAllowOrigins subdomains) =
     snd (New port tracerEnable metricsEnable setCors corsAllowOrigins subdomains g)"
| "construct g (CallNewEmpty port tracerEnable metricsEnable) =
     snd (NewEmpty port tracerEnable metricsEnable g)"

fun enables_cors :: "construction \<Rightarrow> bool" where
  "enables_cors (CallNew port tracerEnable metricsEnable setCors corsAllowOrigins subdomains) = setCors"
| "enables_cors (CallNewEmpty port tracerEnable metricsEnable) = False"

section \<open>Properties\<close>

subsection \<open>Auxiliary facts\<close>

lemma StatusWriter_calls_forward: "snd (StatusWriter_calls sw cs) = cs"
proof (induction cs arbitrary: sw)
  case Nil
  show ?case by simp
next
  case (Cons c cs)
  obtain sw1 f where c: "StatusWriter_call sw c = (sw1, f)" by (cases "StatusWriter_call sw c")
  have f: "f = c" using c by (cases c) auto
  obtain sw2 fs where r: "StatusWriter_calls sw1 cs = (sw2, fs)"
    by (cases "StatusWriter_calls sw1 cs")
  have "fs = cs" using Cons.IH [of sw1] r by simp
  with c f r show ?case by simp
qed

lemma CheckInValidPath_iff:
  "CheckInValidPath r \<longleftrightarrow> URL_Path r \<in> {''/'', ''/status'', ''/ready'', ''/metrics'', ''/*''}"
  unfolding CheckInValidPath_def invalidPaths_def by auto

lemma dec_nat_nonempty: "dec_nat n \<noteq> []"
  by (subst dec_nat.simps) simp

lemma digit_nth: "k < 10 \<Longrightarrow> ''0123456789'' ! k \<in> set ''0123456789''"
  by (rule nth_mem) simp

lemma dec_nat_digits: "set (dec_nat n) \<subseteq> set ''0123456789''"
proof (induction n rule: dec_nat.induct)
  case (1 n)
  show ?case
  proof (cases "n < 10")
    case True
    have "dec_nat n = [''0123456789'' ! n]" using True by (subst dec_nat.simps) simp
    with digit_nth [OF True] show ?thesis by simp
  next
    case False
    have e: "dec_nat n = dec_nat (n div 10) @ [''0123456789'' ! (n mod 10)]"
      using False by (subst dec_nat.simps) simp
    have "n mod 10 < 10" by simp
    from digit_nth [OF this] "1.IH" [OF False] e show ?thesis by simp
  qed
qed

lemma dec_int_first: "dec_int i \<noteq> [] \<and> hd (dec_int i) \<in> set ''-0123456789''"
proof (cases "i < 0")
  case True
  then show ?thesis by (simp add: dec_int_def)
next
  case False
  have "hd (dec_nat (nat i)) \<in> set (dec_nat (nat i))" using dec_nat_nonempty by simp
  with dec_nat_digits have "hd (dec_nat (nat i)) \<in> set ''0123456789''" by blast
  with False dec_nat_nonempty show ?thesis by (simp add: dec_int_def)
qed

lemma StatusWriter_calls_fst_append:
  "fst (StatusWriter_calls sw (xs @ ys)) = fst (StatusWriter_calls (fst (StatusWriter_calls sw xs)) ys)"
proof (induction xs arbitrary: sw)
  case Nil
  show ?case by simp
next
  case (Cons x xs)
  show ?case using Cons.IH by (cases x) (simp_all add: case_prod_beta)
qed

lemma StatusWriter_calls_untouched:
  "(\<forall>k. WriteHeader k \<notin> set cs) \<Longrightarrow> fst (StatusWriter_calls sw cs) = sw"
proof (induction cs arbitrary: sw)
  case Nil
  show ?case by simp
next
  case (Cons c cs)
  then show ?case by (cases c) (auto simp: case_prod_beta)
qed

lemma StatusWriter_calls_last:
  assumes "\<forall>k. WriteHeader k \<notin> set post"
  shows "StatusCode (fst (StatusWriter_calls sw (pre @ WriteHeader code # post))) = code"
proof -
  have "fst (StatusWriter_calls sw (pre @ WriteHeader code # post))
      = fst (StatusWriter_calls (fst (StatusWriter_calls sw pre)) (WriteHeader code # post))"
    by (rule StatusWriter_calls_fst_append)
  also have "\<dots> = fst (StatusWriter_calls ((fst (StatusWriter_calls sw pre))\<lparr>StatusCode := code\<rparr>) post)"
    by (simp add: case_prod_beta)
  also have "\<dots> = (fst (StatusWriter_calls sw pre))\<lparr>StatusCode := code\<rparr>"
    using assms by (rule StatusWriter_calls_untouched)
  finally show ?thesis by simp
qed

lemma MetricsMiddleware_excluded:
  "CheckInValidPath r \<Longrightarrow> MetricsMiddleware next r s = next r s"
  by (simp add: MetricsMiddleware_def)

lemma MetricsMiddleware_panicked:
  "\<not> CheckInValidPath r \<Longrightarrow> exit (next r s) = Panicked \<Longrightarrow> MetricsMiddleware next r s = next r s"
  using StatusWriter_calls_forward [of new_StatusWriter "calls (next r s)"]
  by (simp add: MetricsMiddleware_def Let_def case_prod_beta)

lemma MetricsMiddleware_returned:
  "\<not> CheckInValidPath r \<Longrightarrow> exit (next r s) = Returned \<Longrightarrow>
   MetricsMiddleware next r s =
     (next r s)\<lparr>emitted := emitted (next r s) @
       [CounterInc (RoutePattern (after (next r s))) (Method r)
          (dec_int (StatusCode (fst (StatusWriter_calls new_StatusWriter (calls (next r s)))))),
        HistObserve (RoutePattern (after (next r s))) (Method r)
          (dec_int (StatusCode (fst (StatusWriter_calls new_StatusWriter (calls (next r s))))))
          (clock (after (next r s)) - clock s)]\<rparr>"
  using StatusWriter_calls_forward [of new_StatusWriter "calls (next r s)"]
  by (simp add: MetricsMiddleware_def Let_def case_prod_beta Sprintf_d_def)

lemma TracingMiddleware_excluded:
  "CheckInValidPath r \<Longrightarrow> TracingMiddleware next r s = next r s"
  by (simp add: TracingMiddleware_def)

lemma TracingMiddleware_panicked:
  "\<not> CheckInValidPath r \<Longrightarrow>
   exit (next (r\<lparr>Context := tracer_Start (ContextWithoutBaggage (Context r)) (URL_Path r)\<rparr>) s) = Panicked \<Longrightarrow>
   TracingMiddleware next r s =
     (next (r\<lparr>Context := tracer_Start (ContextWithoutBaggage (Context r)) (URL_Path r)\<rparr>) s)
       \<lparr>emitted := SpanStart (URL_Path r) #
          emitted (next (r\<lparr>Context := tracer_Start (ContextWithoutBaggage (Context r)) (URL_Path r)\<rparr>) s) @ [SpanEnd]\<rparr>"
  using StatusWriter_calls_forward [of new_StatusWriter
     "calls (next (r\<lparr>Context := tracer_Start (ContextWithoutBaggage (Context r)) (URL_Path r)\<rparr>) s)"]
  by (simp add: TracingMiddleware_def Let_def case_prod_beta)

lemma TracingMiddleware_returned:
  "\<not> CheckInValidPath r \<Longrightarrow>
   exit (next (r\<lparr>Context := tracer_Start (ContextWithoutBaggage (Context r)) (URL_Path r)\<rparr>) s) = Returned \<Longrightarrow>
   TracingMiddleware next r s =
     (let served = next (r\<lparr>Context := tracer_Start (ContextWithoutBaggage (Context r)) (URL_Path r)\<rparr>) s;
          ww = fst (StatusWriter_calls new_StatusWriter (calls served))
      in served\<lparr>emitted := SpanStart (URL_Path r) # emitted served @
           [SpanSetStatus (fst (GetStatus ww)) (snd (GetStatus ww)),
            SpanSetName (RoutePattern (after served)),
            SpanSetAttributes
              [KeyString ''extra_path'' (URL_Path r), HTTPStatusCode (StatusCode ww),
               HTTPMethod (Method r), HTTPURL (getFullURL r)],
            SpanEnd]\<rparr>)"
  using StatusWriter_calls_forward [of new_StatusWriter
     "calls (next (r\<lparr>Context := tracer_Start (ContextWithoutBaggage (Context r)) (URL_Path r)\<rparr>) s)"]
  by (simp add: TracingMiddleware_def Let_def case_prod_beta)

lemma Mount_keeps_middlewares:
  "middlewares (foldl (\<lambda>rt subdomain. Mount rt (Domain subdomain) (SubRouter subdomain)) router subdomains)
     = middlewares router"
  by (induction subdomains arbitrary: router) (simp_all add: Mount_def)

lemma New_middlewares:
  "middlewares (Router (fst (New port tracerEnable metricsEnable setCors origin subdomains g))) =
     [StripSlashes] @ (if metricsEnable then [UseMetrics] else []) @
     (if tracerEnable then [UseTracing] else []) @ (if setCors then [UseCors] else []) @ [RealIP]"
  by (simp add: New_def Let_def case_prod_beta Mount_keeps_middlewares Use_def Get_def NewRouter_def)

lemma NewEmpty_middlewares:
  "middlewares (Router (fst (NewEmpty port tracerEnable metricsEnable g))) =
     [StripSlashes] @ (if tracerEnable then [UseTracing] else []) @
     (if metricsEnable then [UseMetrics] else []) @ [RealIP]"
  by (simp add: NewEmpty_def Let_def Use_def Get_def NewRouter_def)

lemma get_user_42_instrumented: "\<not> CheckInValidPath get_user_42"
  by (simp add: CheckInValidPath_def invalidPaths_def get_user_42_def)

lemma post_order_instrumented: "\<not> CheckInValidPath post_order"
  by (simp add: CheckInValidPath_def invalidPaths_def post_order_def)

lemma get_item_7_instrumented: "\<not> CheckInValidPath get_item_7"
  by (simp add: CheckInValidPath_def invalidPaths_def get_item_7_def)

lemma count_of_append:
  "count_of P (out\<lparr>emitted := emitted out @ es\<rparr>) = count_of P out + length (filter P es)"
  by (simp add: count_of_def)

lemma get_ping_instrumented: "\<not> CheckInValidPath get_ping"
  by (simp add: CheckInValidPath_def invalidPaths_def get_ping_def)

lemma construct_without_cors: "\<not> enables_cors c \<Longrightarrow> construct g c = g"
  by (cases c) (simp_all add: New_def NewEmpty_def Let_def case_prod_beta)

lemma constructions_without_cors:
  "(\<forall>c \<in> set later. \<not> enables_cors c) \<Longrightarrow> foldl construct g later = g"
  by (induction later arbitrary: g) (simp_all add: construct_without_cors)

lemma New_sets_origin:
  "CorsAllowOrigins (snd (New port tracerEnable metricsEnable True origin subdomains g)) = origin"
  by (simp add: New_def Let_def case_prod_beta)

lemma cors_first_call:
  "hd (calls (cors g next r s)) = HeaderSet ''Access-Control-Allow-Origin'' (CorsAllowOrigins g)"
  by (simp add: cors_def Let_def)

subsection \<open>Status classification\<close>

text \<open>
  Claim C3. \<^verbatim>\<open>GetStatus\<close> classifies the code the writer holds: the success result
  \<open>(Ok, OKStatusMsg)\<close> for a code in [200,300), the client-error result
  \<open>(Error, ClientStatusMsg)\<close> for a code in [400,500), the server-error result
  \<open>(Error, ServerStatusMsg)\<close> for every code from 500 upwards, and the unclassified
  result \<open>(Unset, DefaultrStatusMsg)\<close> for every other code, that is below 200 or in
  [300,400). The four results are pairwise different. A writer built by a middleware
  starts at 200, so when the handler makes no \<^verbatim>\<open>WriteHeader\<close> call on it, whatever
  else it calls, the stored code is 200 and \<^verbatim>\<open>GetStatus\<close> gives the success result.
\<close>

theorem GetStatus_tiers:
  "(200 \<le> StatusCode sw \<and> StatusCode sw < 300 \<longrightarrow> GetStatus sw = (Ok, OKStatusMsg)) \<and>
   (400 \<le> StatusCode sw \<and> StatusCode sw < 500 \<longrightarrow> GetStatus sw = (Error, ClientStatusMsg)) \<and>
   (500 \<le> StatusCode sw \<longrightarrow> GetStatus sw = (Error, ServerStatusMsg)) \<and>
   (StatusCode sw < 200 \<or> (300 \<le> StatusCode sw \<and> StatusCode sw < 400)
      \<longrightarrow> GetStatus sw = (Unset, DefaultrStatusMsg)) \<and>
   distinct [(Ok, OKStatusMsg), (Error, ClientStatusMsg), (Error, ServerStatusMsg),
             (Unset, DefaultrStatusMsg)] \<and>
   ((\<forall>code. WriteHeader code \<notin> set cs) \<longrightarrow>
      StatusCode (fst (StatusWriter_calls new_StatusWriter cs)) = 200 \<and>
      GetStatus (fst (StatusWriter_calls new_StatusWriter cs)) = (Ok, OKStatusMsg))"
proof -
  have tiers: "(200 \<le> StatusCode sw \<and> StatusCode sw < 300 \<longrightarrow> GetStatus sw = (Ok, OKStatusMsg)) \<and>
   (400 \<le> StatusCode sw \<and> StatusCode sw < 500 \<longrightarrow> GetStatus sw = (Error, ClientStatusMsg)) \<and>
   (500 \<le> StatusCode sw \<longrightarrow> GetStatus sw = (Error, ServerStatusMsg)) \<and>
   (StatusCode sw < 200 \<or> (300 \<le> StatusCode sw \<and> StatusCode sw < 400)
      \<longrightarrow> GetStatus sw = (Unset, DefaultrStatusMsg))"
    by (simp add: GetStatus_def)
  have apart: "distinct [(Ok, OKStatusMsg), (Error, ClientStatusMsg), (Error, ServerStatusMsg),
             (Unset, DefaultrStatusMsg)]"
    by (simp add: ClientStatusMsg_def ServerStatusMsg_def)
  have dflt: "(\<forall>code. WriteHeader code \<notin> set cs) \<longrightarrow>
      StatusCode (fst (StatusWriter_calls new_StatusWriter cs)) = 200 \<and>
      GetStatus (fst (StatusWriter_calls new_StatusWriter cs)) = (Ok, OKStatusMsg)"
  proof
    assume "\<forall>code. WriteHeader code \<notin> set cs"
    then have "fst (StatusWriter_calls new_StatusWriter cs) = new_StatusWriter"
      by (rule StatusWriter_calls_untouched)
    then show "StatusCode (fst (StatusWriter_calls new_StatusWriter cs)) = 200 \<and>
      GetStatus (fst (StatusWriter_calls new_StatusWriter cs)) = (Ok, OKStatusMsg)"
      by (simp add: new_StatusWriter_def StatusOK_def GetStatus_def)
  qed
  from tiers apart dflt show ?thesis by blast
qed

theorem GetStatus_tiers_witness:
  "GetStatus \<lparr>StatusCode = 204\<rparr> = (Ok, OKStatusMsg) \<and>
   GetStatus \<lparr>StatusCode = 404\<rparr> = (Error, ClientStatusMsg) \<and>
   GetStatus \<lparr>StatusCode = 503\<rparr> = (Error, ServerStatusMsg) \<and>
   GetStatus \<lparr>StatusCode = 301\<rparr> = (Unset, DefaultrStatusMsg) \<and>
   GetStatus \<lparr>StatusCode = 100\<rparr> = (Unset, DefaultrStatusMsg) \<and>
   GetStatus (fst (StatusWriter_calls new_StatusWriter
                [HeaderSet ContentType ApplicationJSON, Write ''{}''])) = (Ok, OKStatusMsg)"
proof -
  have a: "GetStatus \<lparr>StatusCode = 204\<rparr> = (Ok, OKStatusMsg)"
    using GetStatus_tiers [of "\<lparr>StatusCode = 204\<rparr>" "[]", THEN conjunct1] by simp
  have b: "GetStatus \<lparr>StatusCode = 404\<rparr> = (Error, ClientStatusMsg)"
    using GetStatus_tiers [of "\<lparr>StatusCode = 404\<rparr>" "[]", THEN conjunct2, THEN conjunct1]
    by simp
  have c: "GetStatus \<lparr>StatusCode = 503\<rparr> = (Error, ServerStatusMsg)"
    using GetStatus_tiers [of "\<lparr>StatusCode = 503\<rparr>" "[]", THEN conjunct2, THEN conjunct2,
        THEN conjunct1]
    by simp
  have d: "GetStatus \<lparr>StatusCode = 301\<rparr> = (Unset, DefaultrStatusMsg)"
    using GetStatus_tiers [of "\<lparr>StatusCode = 301\<rparr>" "[]", THEN conjunct2, THEN conjunct2,
        THEN conjunct2, THEN conjunct1]
    by simp
  have e: "GetStatus \<lparr>StatusCode = 100\<rparr> = (Unset, DefaultrStatusMsg)"
    using GetStatus_tiers [of "\<lparr>StatusCode = 100\<rparr>" "[]", THEN conjunct2, THEN conjunct2,
        THEN conjunct2, THEN conjunct1]
    by simp
  have f: "GetStatus (fst (StatusWriter_calls new_StatusWriter
                [HeaderSet ContentType ApplicationJSON, Write ''{}''])) = (Ok, OKStatusMsg)"
    using GetStatus_tiers [of "\<lparr>StatusCode = 100\<rparr>"
        "[HeaderSet ContentType ApplicationJSON, Write ''{}'']", THEN conjunct2, THEN conjunct2,
        THEN conjunct2, THEN conjunct2, THEN conjunct2]
    by simp
  from a b c d e f show ?thesis by (intro conjI)
qed

subsection \<open>Starting the server\<close>

text \<open>
  Claim C9. \<^verbatim>\<open>Handler.Start\<close> returns an error exactly when
  \<^verbatim>\<open>ListenAndServe\<close> returned an error that is not \<^verbatim>\<open>http.ErrServerClosed\<close>,
  and then it returns that same error; when \<^verbatim>\<open>ListenAndServe\<close> returned
  \<^verbatim>\<open>http.ErrServerClosed\<close>, \<^verbatim>\<open>Start\<close> returns nil.
\<close>

theorem Start_error_iff:
  "(Start err \<noteq> None \<longleftrightarrow> err \<noteq> None \<and> err \<noteq> Some ErrServerClosed) \<and>
   (Start err \<noteq> None \<longrightarrow> Start err = err) \<and>
   Start (Some ErrServerClosed) = None"
  by (simp add: Start_def)

theorem Start_error_iff_witness:
  "Start (Some (OtherError ''listen tcp :80: bind: permission denied''))
     = Some (OtherError ''listen tcp :80: bind: permission denied'') \<and>
   Start (Some ErrServerClosed) = None \<and> Start None = None"
  using Start_error_iff [of "Some (OtherError ''listen tcp :80: bind: permission denied'')"]
        Start_error_iff [of "Some ErrServerClosed"] Start_error_iff [of None]
  by simp

subsection \<open>The listen address\<close>

text \<open>
  Claim C10. The \<^verbatim>\<open>port\<close> parameter of \<^verbatim>\<open>NewEmpty\<close> is a \<^verbatim>\<open>bool\<close>, so the
  address of its server is \<^verbatim>\<open>:%!d(bool=true)\<close> or \<^verbatim>\<open>:%!d(bool=false)\<close>, whatever
  the flags: it is never a colon followed by the decimal form of an integer, which is
  what \<^verbatim>\<open>New\<close> produces from its integer port.
\<close>

theorem NewEmpty_Addr_not_a_port:
  "Addr (server (fst (NewEmpty True tracerEnable metricsEnable g))) = '':%!d(bool=true)'' \<and>
   Addr (server (fst (NewEmpty False tracerEnable metricsEnable g))) = '':%!d(bool=false)'' \<and>
   Addr (server (fst (NewEmpty port tracerEnable metricsEnable g))) \<noteq> '':'' @ dec_int n \<and>
   Addr (server (fst (New n tracerEnable metricsEnable setCors origin subdomains g))) = '':'' @ dec_int n"
proof -
  have t: "Addr (server (fst (NewEmpty True tracerEnable metricsEnable g))) = '':%!d(bool=true)''"
    by (simp add: NewEmpty_def Sprintf_colon_d_def Let_def)
  have f: "Addr (server (fst (NewEmpty False tracerEnable metricsEnable g))) = '':%!d(bool=false)''"
    by (simp add: NewEmpty_def Sprintf_colon_d_def Let_def)
  have "hd (dec_int n) \<noteq> CHR ''%''" using dec_int_first [of n] by auto
  moreover have "dec_int n \<noteq> []" using dec_int_first [of n] by simp
  ultimately have "dec_int n \<noteq> ''%!d(bool=true)''" "dec_int n \<noteq> ''%!d(bool=false)''"
    by auto
  with t f have ne: "Addr (server (fst (NewEmpty port tracerEnable metricsEnable g))) \<noteq> '':'' @ dec_int n"
    by (cases port) auto
  have n: "Addr (server (fst (New n tracerEnable metricsEnable setCors origin subdomains g))) = '':'' @ dec_int n"
    by (simp add: New_def Sprintf_colon_d_def Let_def case_prod_beta)
  from t f ne n show ?thesis by blast
qed

subsection \<open>CORS\<close>

text \<open>
  Claim C6. The cors middleware has no path check: for every request it first sets the
  four headers, Access-Control-Allow-Origin to the value of \<^verbatim>\<open>CorsAllowOrigins\<close>
  and the other three to their fixed values. When the method is OPTIONS it then writes status
  204 and returns; the outcome is the same whatever the wrapped handler is, which is
  never run. For every other method the wrapped handler runs after the four headers are
  set, and nothing else is added. A router built by \<^verbatim>\<open>New\<close> with CORS enabled has
  this middleware in its chain, and \<^verbatim>\<open>CorsAllowOrigins\<close> is then the origin that
  \<^verbatim>\<open>New\<close> was given.
\<close>

theorem cors_headers:
  "(Method r = ''OPTIONS'' \<longrightarrow>
      cors g next r s =
        \<lparr>calls =
           [HeaderSet ''Access-Control-Allow-Origin'' (CorsAllowOrigins g),
            HeaderSet ''Access-Control-Allow-Methods'' ''GET, POST, PUT, DELETE, OPTIONS'',
            HeaderSet ''Access-Control-Allow-Headers''
              ''Content-Type, Authorization, User-Address, Token'',
            HeaderSet ''Access-Control-Max-Age'' ''3600'',
            WriteHeader 204],
         emitted = [], after = s, exit = Returned\<rparr> \<and>
      cors g next r s = cors g other r s) \<and>
   (Method r \<noteq> ''OPTIONS'' \<longrightarrow>
      cors g next r s =
        (next r s)\<lparr>calls :=
           [HeaderSet ''Access-Control-Allow-Origin'' (CorsAllowOrigins g),
            HeaderSet ''Access-Control-Allow-Methods'' ''GET, POST, PUT, DELETE, OPTIONS'',
            HeaderSet ''Access-Control-Allow-Headers''
              ''Content-Type, Authorization, User-Address, Token'',
            HeaderSet ''Access-Control-Max-Age'' ''3600''] @ calls (next r s)\<rparr>) \<and>
   CorsAllowOrigins (snd (New port tracerEnable metricsEnable True origin subdomains g0)) = origin \<and>
   UseCors \<in> set (middlewares (Router (fst (New port tracerEnable metricsEnable True origin subdomains g0))))"
proof -
  have opt: "Method r = ''OPTIONS'' \<longrightarrow>
      cors g next r s =
        \<lparr>calls =
           [HeaderSet ''Access-Control-Allow-Origin'' (CorsAllowOrigins g),
            HeaderSet ''Access-Control-Allow-Methods'' ''GET, POST, PUT, DELETE, OPTIONS'',
            HeaderSet ''Access-Control-Allow-Headers''
              ''Content-Type, Authorization, User-Address, Token'',
            HeaderSet ''Access-Control-Max-Age'' ''3600'',
            WriteHeader 204],
         emitted = [], after = s, exit = Returned\<rparr> \<and>
      cors g next r s = cors g other r s"
    by (simp add: cors_def MethodOptions_def StatusNoContent_def)
  have oth: "Method r \<noteq> ''OPTIONS'' \<longrightarrow>
      cors g next r s =
        (next r s)\<lparr>calls :=
           [HeaderSet ''Access-Control-Allow-Origin'' (CorsAllowOrigins g),
            HeaderSet ''Access-Control-Allow-Methods'' ''GET, POST, PUT, DELETE, OPTIONS'',
            HeaderSet ''Access-Control-Allow-Headers''
              ''Content-Type, Authorization, User-Address, Token'',
            HeaderSet ''Access-Control-Max-Age'' ''3600''] @ calls (next r s)\<rparr>"
    by (simp add: cors_def MethodOptions_def Let_def)
  have org: "CorsAllowOrigins (snd (New port tracerEnable metricsEnable True origin subdomains g0)) = origin"
    by (simp add: New_def Let_def case_prod_beta)
  have use: "UseCors \<in> set (middlewares (Router (fst (New port tracerEnable metricsEnable True origin subdomains g0))))"
    by (simp add: New_middlewares)
  from opt oth org use show ?thesis by (intro conjI)
qed

theorem cors_headers_witness:
  \<open>cors (snd (New 8080 False False True ''https://app.example'' [] no_origin))
        panics_at_once options_users fresh =
     \<lparr>calls =
        [HeaderSet ''Access-Control-Allow-Origin'' ''https://app.example'',
         HeaderSet ''Access-Control-Allow-Methods'' ''GET, POST, PUT, DELETE, OPTIONS'',
         HeaderSet ''Access-Control-Allow-Headers''
           ''Content-Type, Authorization, User-Address, Token'',
         HeaderSet ''Access-Control-Max-Age'' ''3600'',
         WriteHeader 204],
      emitted = [], after = fresh, exit = Returned\<rparr> \<and>
   calls (cors (snd (New 8080 False False True ''https://app.example'' [] no_origin))
            httpkit_GetStatus get_status fresh) =
     [HeaderSet ''Access-Control-Allow-Origin'' ''https://app.example'',
      HeaderSet ''Access-Control-Allow-Methods'' ''GET, POST, PUT, DELETE, OPTIONS'',
      HeaderSet ''Access-Control-Allow-Headers''
        ''Content-Type, Authorization, User-Address, Token'',
      HeaderSet ''Access-Control-Max-Age'' ''3600'',
      HeaderSet ''Content-Type'' ''application/json; charset=utf-8'',
      WriteHeader 200,
      Write ''{"message":"OK"}'']\<close>
proof -
  have o: "Method options_users = ''OPTIONS''" by (simp add: options_users_def)
  have g: "Method get_status \<noteq> ''OPTIONS''" by (simp add: get_status_def)
  have org: "CorsAllowOrigins (snd (New 8080 False False True ''https://app.example'' [] no_origin))
      = ''https://app.example''"
    using cors_headers [of options_users _ panics_at_once fresh panics_at_once 8080 False False
        "''https://app.example''" "[]" no_origin]
    by simp
  have a: "cors (snd (New 8080 False False True ''https://app.example'' [] no_origin))
        panics_at_once options_users fresh =
     \<lparr>calls =
        [HeaderSet ''Access-Control-Allow-Origin'' ''https://app.example'',
         HeaderSet ''Access-Control-Allow-Methods'' ''GET, POST, PUT, DELETE, OPTIONS'',
         HeaderSet ''Access-Control-Allow-Headers''
           ''Content-Type, Authorization, User-Address, Token'',
         HeaderSet ''Access-Control-Max-Age'' ''3600'',
         WriteHeader 204],
      emitted = [], after = fresh, exit = Returned\<rparr>"
    using cors_headers [of options_users
        "snd (New 8080 False False True ''https://app.example'' [] no_origin)"
        panics_at_once fresh panics_at_once 8080 False False "''https://app.example''" "[]"
        no_origin, THEN conjunct1] o org
    by simp
  have b: "cors (snd (New 8080 False False True ''https://app.example'' [] no_origin))
            httpkit_GetStatus get_status fresh =
     (httpkit_GetStatus get_status fresh)\<lparr>calls :=
        [HeaderSet ''Access-Control-Allow-Origin'' ''https://app.example'',
         HeaderSet ''Access-Control-Allow-Methods'' ''GET, POST, PUT, DELETE, OPTIONS'',
         HeaderSet ''Access-Control-Allow-Headers''
           ''Content-Type, Authorization, User-Address, Token'',
         HeaderSet ''Access-Control-Max-Age'' ''3600''] @ calls (httpkit_GetStatus get_status fresh)\<rparr>"
    using cors_headers [of get_status
        "snd (New 8080 False False True ''https://app.example'' [] no_origin)"
        httpkit_GetStatus fresh panics_at_once 8080 False False "''https://app.example''" "[]"
        no_origin, THEN conjunct2, THEN conjunct1] g org
    by simp
  have c: \<open>calls (httpkit_GetStatus get_status fresh) =
      [HeaderSet ''Content-Type'' ''application/json; charset=utf-8'', WriteHeader 200,
       Write ''{"message":"OK"}'']\<close>
    by (simp add: httpkit_GetStatus_def WriteJSON_def ContentType_def ApplicationJSON_def
        StatusOK_def)
  from a b c show ?thesis by simp
qed

subsection \<open>Span lifetime\<close>

text \<open>
  Claim C7. For every request that is not excluded, the tracing middleware ends the span
  it started exactly once, whether the wrapped handler returns or panics: to what the
  wrapped handler emits itself it adds one \<^verbatim>\<open>SpanStart\<close> in front and, after the
  annotations (none when the handler panicked), one \<^verbatim>\<open>SpanEnd\<close> as the last event,
  so the number of \<^verbatim>\<open>SpanEnd\<close> events grows by exactly one. The exit of the wrapped
  handler is passed on unchanged: a panic still propagates after the span is ended.
\<close>

theorem TracingMiddleware_ends_span_once:
  fixes "next" :: handler and r :: request and s :: shared
  defines "served \<equiv> next (r\<lparr>Context := tracer_Start (ContextWithoutBaggage (Context r)) (URL_Path r)\<rparr>) s"
  assumes instrumented: "\<not> CheckInValidPath r"
  shows "exit (TracingMiddleware next r s) = exit served \<and>
         (\<exists>annotated. emitted (TracingMiddleware next r s) =
             SpanStart (URL_Path r) # emitted served @ annotated @ [SpanEnd] \<and>
             SpanEnd \<notin> set annotated) \<and>
         count_list (emitted (TracingMiddleware next r s)) SpanEnd =
           count_list (emitted served) SpanEnd + 1 \<and>
         last (emitted (TracingMiddleware next r s)) = SpanEnd"
proof (cases "exit served")
  case Returned
  then have e: "exit (next (r\<lparr>Context := tracer_Start (ContextWithoutBaggage (Context r)) (URL_Path r)\<rparr>) s) = Returned"
    by (simp add: served_def)
  note t = TracingMiddleware_returned [of r "next" s, OF instrumented e, folded served_def]
  have x: "exit (TracingMiddleware next r s) = exit served" by (simp add: t Let_def)
  obtain ann where em: "emitted (TracingMiddleware next r s) =
      SpanStart (URL_Path r) # emitted served @ ann @ [SpanEnd]" and fr: "SpanEnd \<notin> set ann"
    by (simp add: t Let_def)
  have c: "count_list (emitted (TracingMiddleware next r s)) SpanEnd =
           count_list (emitted served) SpanEnd + 1"
    using fr by (simp add: em count_list_0_iff)
  have l: "last (emitted (TracingMiddleware next r s)) = SpanEnd" by (simp add: em)
  from x em fr c l show ?thesis by blast
next
  case Panicked
  then have e: "exit (next (r\<lparr>Context := tracer_Start (ContextWithoutBaggage (Context r)) (URL_Path r)\<rparr>) s) = Panicked"
    by (simp add: served_def)
  note t = TracingMiddleware_panicked [of r "next" s, OF instrumented e, folded served_def]
  have x: "exit (TracingMiddleware next r s) = exit served" by (simp add: t)
  have em: "emitted (TracingMiddleware next r s) =
      SpanStart (URL_Path r) # emitted served @ [] @ [SpanEnd]"
    by (simp add: t)
  have c: "count_list (emitted (TracingMiddleware next r s)) SpanEnd =
           count_list (emitted served) SpanEnd + 1"
    by (simp add: em)
  have l: "last (emitted (TracingMiddleware next r s)) = SpanEnd" by (simp add: em)
  have "SpanEnd \<notin> set ([] :: tevent list)" by simp
  with x em c l show ?thesis by blast
qed

theorem TracingMiddleware_ends_span_once_witness:
  "exit (TracingMiddleware panics_at_once get_user_42 fresh) = Panicked \<and>
   count_list (emitted (TracingMiddleware panics_at_once get_user_42 fresh)) SpanEnd = 1 \<and>
   last (emitted (TracingMiddleware panics_at_once get_user_42 fresh)) = SpanEnd \<and>
   exit (TracingMiddleware user_not_found get_user_42 fresh) = Returned \<and>
   count_list (emitted (TracingMiddleware user_not_found get_user_42 fresh)) SpanEnd = 1 \<and>
   last (emitted (TracingMiddleware user_not_found get_user_42 fresh)) = SpanEnd"
proof -
  have p: "exit (TracingMiddleware panics_at_once get_user_42 fresh) = Panicked \<and>
   count_list (emitted (TracingMiddleware panics_at_once get_user_42 fresh)) SpanEnd = 1 \<and>
   last (emitted (TracingMiddleware panics_at_once get_user_42 fresh)) = SpanEnd"
    using TracingMiddleware_ends_span_once [OF get_user_42_instrumented, of panics_at_once fresh]
    by (simp add: panics_at_once_def)
  have q: "exit (TracingMiddleware user_not_found get_user_42 fresh) = Returned \<and>
   count_list (emitted (TracingMiddleware user_not_found get_user_42 fresh)) SpanEnd = 1 \<and>
   last (emitted (TracingMiddleware user_not_found get_user_42 fresh)) = SpanEnd"
    using TracingMiddleware_ends_span_once [OF get_user_42_instrumented, of user_not_found fresh]
    by (simp add: user_not_found_def)
  from p q show ?thesis by simp
qed

subsection \<open>Which requests are instrumented\<close>

text \<open>
  Claim C1, as stated, fails: for a request outside the five paths whose wrapped handler
  panics, the metrics middleware emits no counter increment and no histogram
  observation, where the claim promises exactly one of each. The request
  \<^verbatim>\<open>GET /users/42\<close> with a handler that panics shows it.
\<close>

theorem panicking_request_not_counted:
  "URL_Path get_user_42 = ''/users/42'' \<and> \<not> CheckInValidPath get_user_42 \<and>
   count_of is_counter_inc (MetricsMiddleware panics_at_once get_user_42 fresh) = 0 \<and>
   count_of is_hist_observe (MetricsMiddleware panics_at_once get_user_42 fresh) = 0"
proof -
  have "exit (panics_at_once get_user_42 fresh) = Panicked" by (simp add: panics_at_once_def)
  from MetricsMiddleware_panicked [of get_user_42 panics_at_once fresh, OF get_user_42_instrumented this]
  have "MetricsMiddleware panics_at_once get_user_42 fresh = panics_at_once get_user_42 fresh" .
  then show ?thesis
    using get_user_42_instrumented
    by (simp add: count_of_def panics_at_once_def get_user_42_def)
qed

text \<open>
  Claim C1, amended. The exclusion test is an exact match of \<^verbatim>\<open>r.URL.Path\<close> against
  the five strings; the resolved route pattern is no input of it. For a request on one
  of the five paths both middlewares are the wrapped handler itself: they delegate and
  add nothing. For a request on any other path, the tracing middleware starts exactly one
  span on every exit of the wrapped handler; the metrics middleware adds exactly one
  counter increment and exactly one histogram observation when the wrapped handler
  returns, and adds nothing when it panics, since it emits after the handler has returned.
  The counts are relative to what the wrapped handler emits itself.
\<close>

theorem instrumentation_by_request_path:
  fixes "next" :: handler and r :: request and s :: shared
  defines "traced \<equiv> next (r\<lparr>Context := tracer_Start (ContextWithoutBaggage (Context r)) (URL_Path r)\<rparr>) s"
  shows
  "(CheckInValidPath r \<longleftrightarrow> URL_Path r \<in> {''/'', ''/status'', ''/ready'', ''/metrics'', ''/*''}) \<and>
   (URL_Path r \<in> {''/'', ''/status'', ''/ready'', ''/metrics'', ''/*''} \<longrightarrow>
      MetricsMiddleware next r s = next r s \<and> TracingMiddleware next r s = next r s) \<and>
   (URL_Path r \<notin> {''/'', ''/status'', ''/ready'', ''/metrics'', ''/*''} \<and> exit (next r s) = Returned \<longrightarrow>
      count_of is_counter_inc (MetricsMiddleware next r s) = count_of is_counter_inc (next r s) + 1 \<and>
      count_of is_hist_observe (MetricsMiddleware next r s) = count_of is_hist_observe (next r s) + 1) \<and>
   (URL_Path r \<notin> {''/'', ''/status'', ''/ready'', ''/metrics'', ''/*''} \<and> exit (next r s) = Panicked \<longrightarrow>
      MetricsMiddleware next r s = next r s) \<and>
   (URL_Path r \<notin> {''/'', ''/status'', ''/ready'', ''/metrics'', ''/*''} \<longrightarrow>
      count_of is_span_start (TracingMiddleware next r s) = count_of is_span_start traced + 1)"
proof -
  have a: "CheckInValidPath r \<longleftrightarrow> URL_Path r \<in> {''/'', ''/status'', ''/ready'', ''/metrics'', ''/*''}"
    by (rule CheckInValidPath_iff)
  have b: "URL_Path r \<in> {''/'', ''/status'', ''/ready'', ''/metrics'', ''/*''} \<longrightarrow>
      MetricsMiddleware next r s = next r s \<and> TracingMiddleware next r s = next r s"
    using a MetricsMiddleware_excluded [of r "next" s] TracingMiddleware_excluded [of r "next" s]
    by blast
  have c: "URL_Path r \<notin> {''/'', ''/status'', ''/ready'', ''/metrics'', ''/*''} \<and> exit (next r s) = Returned \<longrightarrow>
      count_of is_counter_inc (MetricsMiddleware next r s) = count_of is_counter_inc (next r s) + 1 \<and>
      count_of is_hist_observe (MetricsMiddleware next r s) = count_of is_hist_observe (next r s) + 1"
  proof
    assume h: "URL_Path r \<notin> {''/'', ''/status'', ''/ready'', ''/metrics'', ''/*''} \<and> exit (next r s) = Returned"
    with a have n: "\<not> CheckInValidPath r" and e: "exit (next r s) = Returned" by blast+
    show "count_of is_counter_inc (MetricsMiddleware next r s) = count_of is_counter_inc (next r s) + 1 \<and>
      count_of is_hist_observe (MetricsMiddleware next r s) = count_of is_hist_observe (next r s) + 1"
      by (simp add: MetricsMiddleware_returned [of r "next" s, OF n e] count_of_append)
  qed
  have d: "URL_Path r \<notin> {''/'', ''/status'', ''/ready'', ''/metrics'', ''/*''} \<and> exit (next r s) = Panicked \<longrightarrow>
      MetricsMiddleware next r s = next r s"
    using a MetricsMiddleware_panicked [of r "next" s] by blast
  have e: "URL_Path r \<notin> {''/'', ''/status'', ''/ready'', ''/metrics'', ''/*''} \<longrightarrow>
      count_of is_span_start (TracingMiddleware next r s) = count_of is_span_start traced + 1"
  proof
    assume "URL_Path r \<notin> {''/'', ''/status'', ''/ready'', ''/metrics'', ''/*''}"
    with a have n: "\<not> CheckInValidPath r" by blast
    show "count_of is_span_start (TracingMiddleware next r s) = count_of is_span_start traced + 1"
    proof (cases "exit traced")
      case Returned
      then have x: "exit (next (r\<lparr>Context := tracer_Start (ContextWithoutBaggage (Context r)) (URL_Path r)\<rparr>) s) = Returned"
        by (simp add: traced_def)
      show ?thesis
        by (simp add: TracingMiddleware_returned [of r "next" s, OF n x, folded traced_def]
            Let_def count_of_def)
    next
      case Panicked
      then have x: "exit (next (r\<lparr>Context := tracer_Start (ContextWithoutBaggage (Context r)) (URL_Path r)\<rparr>) s) = Panicked"
        by (simp add: traced_def)
      show ?thesis
        by (simp add: TracingMiddleware_panicked [of r "next" s, OF n x, folded traced_def]
            count_of_def)
    qed
  qed
  from a b c d e show ?thesis by (intro conjI)
qed

text \<open>
  The instances: \<^verbatim>\<open>GET /status\<close>; \<^verbatim>\<open>GET /users/42\<close> with a handler that
  returns and with one that panics; and \<^verbatim>\<open>GET /status/\<close>, whose route resolves to
  the pattern \<^verbatim>\<open>/status\<close> and which is instrumented all the same, the test being on
  the path of the request.
\<close>

theorem instrumentation_by_request_path_witness:
  "MetricsMiddleware httpkit_GetStatus get_status fresh = httpkit_GetStatus get_status fresh \<and>
   TracingMiddleware httpkit_GetStatus get_status fresh = httpkit_GetStatus get_status fresh \<and>
   count_of is_counter_inc (MetricsMiddleware user_not_found get_user_42 fresh) = 1 \<and>
   count_of is_hist_observe (MetricsMiddleware user_not_found get_user_42 fresh) = 1 \<and>
   MetricsMiddleware panics_at_once get_user_42 fresh = panics_at_once get_user_42 fresh \<and>
   count_of is_span_start (TracingMiddleware user_not_found get_user_42 fresh) = 1 \<and>
   count_of is_span_start (TracingMiddleware panics_at_once get_user_42 fresh) = 1 \<and>
   RoutePattern (after (status_route get_status_slash fresh)) = ''/status'' \<and>
   count_of is_counter_inc (MetricsMiddleware status_route get_status_slash fresh) = 1"
proof -
  have sl: "URL_Path get_status_slash \<notin> {''/'', ''/status'', ''/ready'', ''/metrics'', ''/*''}"
    by (simp add: get_status_slash_def)
  have sr: "exit (status_route get_status_slash fresh) = Returned"
    by (simp add: status_route_def httpkit_GetStatus_def)
  have f: "RoutePattern (after (status_route get_status_slash fresh)) = ''/status'' \<and>
   count_of is_counter_inc (MetricsMiddleware status_route get_status_slash fresh) = 1"
    using instrumentation_by_request_path [of get_status_slash status_route fresh,
        THEN conjunct2, THEN conjunct2, THEN conjunct1] sl sr
    by (simp add: count_of_def status_route_def httpkit_GetStatus_def)
  have ex: "URL_Path get_status \<in> {''/'', ''/status'', ''/ready'', ''/metrics'', ''/*''}"
    by (simp add: get_status_def)
  have nx: "URL_Path get_user_42 \<notin> {''/'', ''/status'', ''/ready'', ''/metrics'', ''/*''}"
    by (simp add: get_user_42_def)
  have a: "MetricsMiddleware httpkit_GetStatus get_status fresh = httpkit_GetStatus get_status fresh \<and>
   TracingMiddleware httpkit_GetStatus get_status fresh = httpkit_GetStatus get_status fresh"
    using instrumentation_by_request_path [of get_status httpkit_GetStatus fresh] ex by blast
  have r: "exit (user_not_found get_user_42 fresh) = Returned" by (simp add: user_not_found_def)
  have b: "count_of is_counter_inc (MetricsMiddleware user_not_found get_user_42 fresh) = 1 \<and>
   count_of is_hist_observe (MetricsMiddleware user_not_found get_user_42 fresh) = 1"
    using instrumentation_by_request_path [of get_user_42 user_not_found fresh,
        THEN conjunct2, THEN conjunct2, THEN conjunct1] nx r
    by (simp add: count_of_def user_not_found_def)
  have p: "exit (panics_at_once get_user_42 fresh) = Panicked" by (simp add: panics_at_once_def)
  have c: "MetricsMiddleware panics_at_once get_user_42 fresh = panics_at_once get_user_42 fresh"
    using instrumentation_by_request_path [of get_user_42 panics_at_once fresh,
        THEN conjunct2, THEN conjunct2, THEN conjunct2, THEN conjunct1] nx p
    by blast
  have d: "count_of is_span_start (TracingMiddleware user_not_found get_user_42 fresh) = 1"
    using instrumentation_by_request_path [of get_user_42 user_not_found fresh,
        THEN conjunct2, THEN conjunct2, THEN conjunct2, THEN conjunct2] nx
    by (simp add: count_of_def user_not_found_def)
  have e: "count_of is_span_start (TracingMiddleware panics_at_once get_user_42 fresh) = 1"
    using instrumentation_by_request_path [of get_user_42 panics_at_once fresh,
        THEN conjunct2, THEN conjunct2, THEN conjunct2, THEN conjunct2] nx
    by (simp add: count_of_def panics_at_once_def)
  from a b c d e f show ?thesis by (intro conjI) simp_all
qed

subsection \<open>Metric labels\<close>

text \<open>
  Claim C2, as stated, fails: for the request \<^verbatim>\<open>POST /orders\<close>, which is not
  excluded and whose route chi resolves, the handler panics and the metrics middleware
  increments no counter and records no duration, with any labels.
\<close>

theorem panicking_request_gets_no_labels:
  "\<not> CheckInValidPath post_order \<and>
   RoutePattern (after (order_panics post_order fresh)) = ''/orders'' \<and>
   emitted (MetricsMiddleware order_panics post_order fresh) = []"
proof -
  have "exit (order_panics post_order fresh) = Panicked" by (simp add: order_panics_def)
  from MetricsMiddleware_panicked [of post_order order_panics fresh, OF post_order_instrumented this]
  show ?thesis using post_order_instrumented by (simp add: order_panics_def)
qed

text \<open>
  Claim C2, amended. For every request that is not excluded and whose wrapped handler
  returns, the metrics middleware adds one counter increment and one histogram
  observation, both labelled with the route pattern chi reports after the handler ran,
  the request's method, and the decimal form of the code the status-capturing writer holds
  then: the code of the last \<^verbatim>\<open>WriteHeader\<close> call the handler made, or 200 when it
  made none. The middleware substitutes nothing for the pattern: when chi has resolved
  none, the path label is the empty string. The request \<^verbatim>\<open>GET /users/42\<close> resolved to
  \<^verbatim>\<open>/users/{id}\<close> and answered 404 gets the labels
  \<^verbatim>\<open>("/users/{id}", "GET", "404")\<close>.
\<close>

theorem metrics_labels:
  fixes "next" :: handler and r :: request and s :: shared
  defines "served \<equiv> next r s"
  defines "final \<equiv> StatusCode (fst (StatusWriter_calls new_StatusWriter (calls served)))"
  assumes instrumented: "\<not> CheckInValidPath r" and returned: "exit served = Returned"
  shows
  "emitted (MetricsMiddleware next r s) = emitted served @
     [CounterInc (RoutePattern (after served)) (Method r) (dec_int final),
      HistObserve (RoutePattern (after served)) (Method r) (dec_int final)
        (clock (after served) - clock s)] \<and>
   ((\<forall>k. WriteHeader k \<notin> set (calls served)) \<longrightarrow> final = 200) \<and>
   (\<forall>pre code post. calls served = pre @ WriteHeader code # post \<and>
       (\<forall>k. WriteHeader k \<notin> set post) \<longrightarrow> final = code) \<and>
   (RoutePattern (after served) = '''' \<longrightarrow>
      emitted (MetricsMiddleware next r s) = emitted served @
        [CounterInc '''' (Method r) (dec_int final),
         HistObserve '''' (Method r) (dec_int final) (clock (after served) - clock s)])"
proof -
  have e: "exit (next r s) = Returned" using returned by (simp add: served_def)
  have a: "emitted (MetricsMiddleware next r s) = emitted served @
     [CounterInc (RoutePattern (after served)) (Method r) (dec_int final),
      HistObserve (RoutePattern (after served)) (Method r) (dec_int final)
        (clock (after served) - clock s)]"
    by (simp add: MetricsMiddleware_returned [of r "next" s, OF instrumented e] served_def final_def)
  have b: "(\<forall>k. WriteHeader k \<notin> set (calls served)) \<longrightarrow> final = 200"
    by (simp add: final_def StatusWriter_calls_untouched new_StatusWriter_def StatusOK_def)
  have c: "\<forall>pre code post. calls served = pre @ WriteHeader code # post \<and>
       (\<forall>k. WriteHeader k \<notin> set post) \<longrightarrow> final = code"
    by (simp add: final_def StatusWriter_calls_last)
  have d: "RoutePattern (after served) = '''' \<longrightarrow>
      emitted (MetricsMiddleware next r s) = emitted served @
        [CounterInc '''' (Method r) (dec_int final),
         HistObserve '''' (Method r) (dec_int final) (clock (after served) - clock s)]"
    using a by simp
  from a b c d show ?thesis by (intro conjI)
qed

theorem metrics_labels_witness:
  "emitted (MetricsMiddleware user_not_found get_user_42 fresh) =
     [CounterInc ''/users/{id}'' ''GET'' ''404'',
      HistObserve ''/users/{id}'' ''GET'' ''404'' 1500000] \<and>
   emitted (MetricsMiddleware route_not_matched get_user_42 fresh) =
     [CounterInc '''' ''GET'' ''404'', HistObserve '''' ''GET'' ''404'' 30000] \<and>
   emitted (MetricsMiddleware pong get_ping fresh) =
     [CounterInc ''/ping'' ''GET'' ''200'', HistObserve ''/ping'' ''GET'' ''200'' 40000]"
proof -
  have r1: "exit (user_not_found get_user_42 fresh) = Returned" by (simp add: user_not_found_def)
  have r2: "exit (route_not_matched get_user_42 fresh) = Returned"
    by (simp add: route_not_matched_def)
  have r3: "exit (pong get_ping fresh) = Returned" by (simp add: pong_def)
  have a: "emitted (MetricsMiddleware user_not_found get_user_42 fresh) =
     [CounterInc ''/users/{id}'' ''GET'' ''404'',
      HistObserve ''/users/{id}'' ''GET'' ''404'' 1500000]"
    using metrics_labels [of get_user_42 user_not_found fresh, OF get_user_42_instrumented r1,
        THEN conjunct1]
    by (simp add: user_not_found_def WriteJSON_def new_StatusWriter_def get_user_42_def fresh_def
        dec_int_def dec_nat.simps)
  have b: "emitted (MetricsMiddleware route_not_matched get_user_42 fresh) =
     [CounterInc '''' ''GET'' ''404'', HistObserve '''' ''GET'' ''404'' 30000]"
    using metrics_labels [of get_user_42 route_not_matched fresh, OF get_user_42_instrumented r2,
        THEN conjunct1]
    by (simp add: route_not_matched_def new_StatusWriter_def get_user_42_def
        fresh_def dec_int_def dec_nat.simps)
  have c: "emitted (MetricsMiddleware pong get_ping fresh) =
     [CounterInc ''/ping'' ''GET'' ''200'', HistObserve ''/ping'' ''GET'' ''200'' 40000]"
    using metrics_labels [of get_ping pong fresh, OF get_ping_instrumented r3, THEN conjunct1]
    by (simp add: pong_def new_StatusWriter_def get_ping_def StatusOK_def
        fresh_def dec_int_def dec_nat.simps)
  from a b c show ?thesis by simp
qed

subsection \<open>Status message of the span\<close>

text \<open>
  Claim C4 does not hold of the code. For a final status in [200,300) the message passed
  to \<^verbatim>\<open>span.SetStatus\<close> is \<^verbatim>\<open>OKStatusMsg\<close>, which path.go declares as the digit
  zero followed by K, not the letters OK. The request \<^verbatim>\<open>GET /items/7\<close> answered 200
  shows the span events in full. The other three messages are the ones the claim names.
\<close>

theorem success_message_is_zero_K:
  "emitted (TracingMiddleware item_found get_item_7 fresh) =
     [SpanStart ''/items/7'',
      SpanSetStatus Ok ''0K'',
      SpanSetName ''/items/{id}'',
      SpanSetAttributes
        [KeyString ''extra_path'' ''/items/7'', HTTPStatusCode 200, HTTPMethod ''GET'',
         HTTPURL ''http://localhost:8080/items/7''],
      SpanEnd] \<and>
   ''0K'' \<noteq> ''OK'' \<and>
   snd (GetStatus \<lparr>StatusCode = 404\<rparr>) = ''Client Error'' \<and>
   snd (GetStatus \<lparr>StatusCode = 503\<rparr>) = ''Server Error'' \<and>
   snd (GetStatus \<lparr>StatusCode = 302\<rparr>) = ''Unhandled Status''"
proof -
  have "exit (item_found (get_item_7\<lparr>Context :=
      tracer_Start (ContextWithoutBaggage (Context get_item_7)) (URL_Path get_item_7)\<rparr>) fresh) = Returned"
    by (simp add: item_found_def)
  from TracingMiddleware_returned [of get_item_7 item_found fresh, OF get_item_7_instrumented this]
  have "emitted (TracingMiddleware item_found get_item_7 fresh) =
     [SpanStart ''/items/7'',
      SpanSetStatus Ok ''0K'',
      SpanSetName ''/items/{id}'',
      SpanSetAttributes
        [KeyString ''extra_path'' ''/items/7'', HTTPStatusCode 200, HTTPMethod ''GET'',
         HTTPURL ''http://localhost:8080/items/7''],
      SpanEnd]"
    by (simp add: Let_def item_found_def WriteJSON_def new_StatusWriter_def StatusOK_def
        GetStatus_def OKStatusMsg_def get_item_7_def getFullURL_def Header_Get_def)
  then show ?thesis
    by (simp add: GetStatus_def ClientStatusMsg_def ServerStatusMsg_def DefaultrStatusMsg_def)
qed

subsection \<open>Order of the middleware chain\<close>

text \<open>
  Claim C5 does not hold of \<^verbatim>\<open>NewEmpty\<close>. With tracing and metrics both enabled,
  \<^verbatim>\<open>NewEmpty\<close> registers the tracing middleware before the metrics middleware, while
  \<^verbatim>\<open>New\<close> with the same flags registers metrics before tracing, the order the claim
  gives for both. (\<^verbatim>\<open>New_middlewares\<close> and \<^verbatim>\<open>NewEmpty_middlewares\<close> above give the chains
  for every combination of the flags.)
\<close>

theorem NewEmpty_registers_tracing_first:
  "middlewares (Router (fst (NewEmpty True True True no_origin))) =
     [StripSlashes, UseTracing, UseMetrics, RealIP] \<and>
   middlewares (Router (fst (New 8080 True True False [] [] no_origin))) =
     [StripSlashes, UseMetrics, UseTracing, RealIP]"
  by (simp add: New_middlewares NewEmpty_middlewares)

subsection \<open>The CORS origin over the life of the process\<close>

text \<open>
  Claim C8, as stated, fails: a router is built with CORS enabled for
  \<^verbatim>\<open>https://a.example\<close>, a second one for \<^verbatim>\<open>https://b.example\<close>; the cors
  middleware, which the first router has in its chain, then emits the second origin.
\<close>

theorem second_router_replaces_origin:
  "UseCors \<in> set (middlewares (Router (fst (New 8080 False False True ''https://a.example'' [] no_origin)))) \<and>
   hd (calls (cors
     (snd (New 8081 False False True ''https://b.example'' []
        (snd (New 8080 False False True ''https://a.example'' [] no_origin))))
     user_not_found get_user_42 fresh))
     = HeaderSet ''Access-Control-Allow-Origin'' ''https://b.example'' \<and>
   ''https://b.example'' \<noteq> ''https://a.example''"
  by (simp add: New_middlewares cors_first_call New_sets_origin)

text \<open>
  Claim C8, amended. The origin the cors middleware emits is the package variable
  \<^verbatim>\<open>CorsAllowOrigins\<close>, one for all routers of the process, read at each request. After
  a router is built with CORS enabled and an origin, that origin is emitted for as long as
  every later construction leaves CORS disabled (\<^verbatim>\<open>New\<close> with \<^verbatim>\<open>setCors\<close> false,
  or \<^verbatim>\<open>NewEmpty\<close>); serving a request does not write the variable. A later \<^verbatim>\<open>New\<close>
  with CORS enabled replaces the origin by its own, whatever it was, for every router.
\<close>

theorem CorsAllowOrigins_is_process_wide:
  "((\<forall>c \<in> set later. \<not> enables_cors c) \<longrightarrow>
      CorsAllowOrigins
        (foldl construct (snd (New port tracerEnable metricsEnable True origin subdomains g)) later)
        = origin) \<and>
   CorsAllowOrigins (construct g' (CallNew port' tracerEnable' metricsEnable' True origin' subdomains'))
     = origin' \<and>
   hd (calls (cors g'' next r s)) = HeaderSet ''Access-Control-Allow-Origin'' (CorsAllowOrigins g'')"
proof -
  have a: "(\<forall>c \<in> set later. \<not> enables_cors c) \<longrightarrow>
      CorsAllowOrigins
        (foldl construct (snd (New port tracerEnable metricsEnable True origin subdomains g)) later)
        = origin"
    by (simp add: constructions_without_cors New_sets_origin)
  have b: "CorsAllowOrigins (construct g' (CallNew port' tracerEnable' metricsEnable' True origin' subdomains'))
     = origin'"
    by (simp add: New_sets_origin)
  from a b cors_first_call [of g'' "next" r s] show ?thesis by (intro conjI)
qed

theorem CorsAllowOrigins_is_process_wide_witness:
  "CorsAllowOrigins
     (foldl construct (snd (New 8080 True True True ''https://a.example'' [] no_origin))
        [CallNewEmpty True True True, CallNew 9090 True False False ''https://unused.example'' []])
     = ''https://a.example''"
  using CorsAllowOrigins_is_process_wide [of
      "[CallNewEmpty True True True, CallNew 9090 True False False ''https://unused.example'' []]"
      8080 True True "''https://a.example''" "[]" no_origin, THEN conjunct1]
  by simp

end
